theory Spec2Isabelle
  imports Complex_Main
begin

section \<open>Arrays, tensors and Python slices\<close>

text \<open>
  The helper module \<^verbatim>\<open>Dense_U_Net_lidar_helper.py\<close> works on dense numeric arrays
  (NumPy arrays and PyTorch tensors). An array is modelled by its shape together with
  the function from an index to the value stored there; only indices inside the shape
  are meaningful. Floating-point cells are modelled as real numbers (exact arithmetic).
\<close>

record 'a array2 =
  nrows :: nat
  ncols :: nat
  entry :: "nat \<Rightarrow> nat \<Rightarrow> 'a"

record 'a tensor =
  chans :: nat
  rows :: nat
  cols :: nat
  cell :: "nat \<Rightarrow> nat \<Rightarrow> nat \<Rightarrow> 'a"

text \<open>Every exception the modelled functions can raise.\<close>

datatype error =
    InvalidLabelClass    \<comment> \<open>\<^verbatim>\<open>TypeError('the ground truth label class does not exist')\<close>\<close>
  | NegativeDimensions   \<comment> \<open>\<^verbatim>\<open>ValueError\<close>: negative dimensions are not allowed\<close>
  | ShapeMismatch        \<comment> \<open>an array cannot be broadcast to the shape of its target\<close>
  | IndexOutOfRange      \<comment> \<open>\<^verbatim>\<open>IndexError\<close>\<close>
  | PoolOutputTooSmall   \<comment> \<open>\<^verbatim>\<open>RuntimeError\<close> of a pooling layer whose input is too small\<close>

text \<open>\<^verbatim>\<open>np.zeros\<close>, \<^verbatim>\<open>np.ones\<close> and \<^verbatim>\<open>torch.ones(shape) * v\<close>.\<close>

definition full :: "nat \<Rightarrow> nat \<Rightarrow> nat \<Rightarrow> 'a \<Rightarrow> 'a tensor" where
  "full c h w v = \<lparr>chans = c, rows = h, cols = w, cell = (\<lambda>_ _ _. v)\<rparr>"

definition zeros :: "nat \<Rightarrow> nat \<Rightarrow> nat \<Rightarrow> real tensor" where
  "zeros c h w = full c h w 0"

definition ones2 :: "nat \<Rightarrow> nat \<Rightarrow> real array2" where
  "ones2 h w = \<lparr>nrows = h, ncols = w, entry = (\<lambda>_ _. 1)\<rparr>"

text \<open>
  A Python slice \<^verbatim>\<open>a:b\<close> (step 1) on an axis of length \<open>n\<close>: a negative bound counts
  from the end, and every bound is then clamped to \<open>0..n\<close>. The slice selects the
  indices \<open>k\<close> with \<open>slice_bound n a \<le> k < slice_bound n b\<close>. An omitted start is
  \<open>0\<close> and an omitted stop is \<open>n\<close>.
\<close>

definition slice_bound :: "nat \<Rightarrow> int \<Rightarrow> nat" where
  "slice_bound n i = (if i < 0 then nat (i + int n) else min (nat i) n)"

definition in_slice :: "nat \<Rightarrow> int \<Rightarrow> int \<Rightarrow> nat \<Rightarrow> bool" where
  "in_slice n a b k \<longleftrightarrow> slice_bound n a \<le> k \<and> k < slice_bound n b"

definition slice_len :: "nat \<Rightarrow> int \<Rightarrow> int \<Rightarrow> nat" where
  "slice_len n a b = slice_bound n b - slice_bound n a"

text \<open>\<^verbatim>\<open>box[r0:r1, c0:c1] = v\<close> for a scalar \<open>v\<close>.\<close>

definition fill2 :: "'a array2 \<Rightarrow> int \<Rightarrow> int \<Rightarrow> int \<Rightarrow> int \<Rightarrow> 'a \<Rightarrow> 'a array2" where
  "fill2 b r0 r1 c0 c1 v =
     b\<lparr>entry := (\<lambda>r c. if in_slice (nrows b) r0 r1 r \<and> in_slice (ncols b) c0 c1 c
                        then v else entry b r c)\<rparr>"

text \<open>\<^verbatim>\<open>t[ch, r0:r1, c0:c1] = v\<close> for a scalar \<open>v\<close>; the channel index is checked.\<close>

definition fill3 ::
  "'a tensor \<Rightarrow> nat \<Rightarrow> int \<Rightarrow> int \<Rightarrow> int \<Rightarrow> int \<Rightarrow> 'a \<Rightarrow> error + 'a tensor" where
  "fill3 t ch r0 r1 c0 c1 v =
     (if chans t \<le> ch then Inl IndexOutOfRange
      else Inr (t\<lparr>cell := (\<lambda>c r k.
              if c = ch \<and> in_slice (rows t) r0 r1 r \<and> in_slice (cols t) c0 c1 k
              then v else cell t c r k)\<rparr>))"

text \<open>
  \<^verbatim>\<open>t[ch, r0:r1, c0:c1] = box\<close> for a two-dimensional array: NumPy broadcasts the
  array to the shape of the slice, so each of its dimensions must equal that of the
  slice or be 1; otherwise the assignment raises.
\<close>

definition assign_box ::
  "'a tensor \<Rightarrow> nat \<Rightarrow> int \<Rightarrow> int \<Rightarrow> int \<Rightarrow> int \<Rightarrow> 'a array2 \<Rightarrow> error + 'a tensor" where
  "assign_box t ch r0 r1 c0 c1 box =
     (if chans t \<le> ch then Inl IndexOutOfRange
      else if (nrows box = slice_len (rows t) r0 r1 \<or> nrows box = 1)
            \<and> (ncols box = slice_len (cols t) c0 c1 \<or> ncols box = 1)
      then Inr (t\<lparr>cell := (\<lambda>c r k.
              if c = ch \<and> in_slice (rows t) r0 r1 r \<and> in_slice (cols t) c0 c1 k
              then entry box (if nrows box = 1 then 0 else r - slice_bound (rows t) r0)
                             (if ncols box = 1 then 0 else k - slice_bound (cols t) c0)
              else cell t c r k)\<rparr>)
      else Inl ShapeMismatch)"

text \<open>Elementwise operations and the masked in-place updates \<^verbatim>\<open>t[p(t)] = ...\<close>.\<close>

definition map_tensor :: "('a \<Rightarrow> 'b) \<Rightarrow> 'a tensor \<Rightarrow> 'b tensor" where
  "map_tensor f t =
     \<lparr>chans = chans t, rows = rows t, cols = cols t, cell = (\<lambda>c r k. f (cell t c r k))\<rparr>"

definition masked_set :: "('a \<Rightarrow> bool) \<Rightarrow> 'a \<Rightarrow> 'a tensor \<Rightarrow> 'a tensor" where
  "masked_set p v t = map_tensor (\<lambda>u. if p u then v else u) t"

definition masked_map :: "('a \<Rightarrow> bool) \<Rightarrow> ('a \<Rightarrow> 'a) \<Rightarrow> 'a tensor \<Rightarrow> 'a tensor" where
  "masked_map p f t = map_tensor (\<lambda>u. if p u then f u else u) t"

text \<open>Reading one cell of a result, \<^verbatim>\<open>t[c, r, k]\<close> with non-negative indices.\<close>

definition lookup :: "error + 'a tensor \<Rightarrow> nat \<Rightarrow> nat \<Rightarrow> nat \<Rightarrow> error + 'a" where
  "lookup res c r k =
     (case res of
        Inl e \<Rightarrow> Inl e
      | Inr t \<Rightarrow> if c < chans t \<and> r < rows t \<and> k < cols t then Inr (cell t c r k)
                 else Inl IndexOutOfRange)"

definition shape :: "'a tensor \<Rightarrow> nat \<times> nat \<times> nat" where
  "shape t = (chans t, rows t, cols t)"


section \<open>Ground-truth heat maps\<close>

text \<open>\<^verbatim>\<open>_create_ground_truth_bb_pedestrian\<close>: five slice assignments on the box.\<close>

definition create_ground_truth_bb_pedestrian :: "real array2 \<Rightarrow> real array2" where
  "create_ground_truth_bb_pedestrian ground_truth_box =
     (let unlikely = 0.3;
          uncertain = 0.5;
          half_certain = 0.75;
          height = int (nrows ground_truth_box);
          width = int (ncols ground_truth_box);
          height_fraction = height div 5;
          width_fraction = width div 4;
          b1 = fill2 ground_truth_box 0 height_fraction 0 width_fraction unlikely;
          b2 = fill2 b1 0 height_fraction (width_fraction * 3) width unlikely;
          b3 = fill2 b2 (height_fraction * 3) height 0 width_fraction uncertain;
          b4 = fill2 b3 (height_fraction * 3) height (width_fraction * 3) width uncertain;
          b5 = fill2 b4 (height_fraction * 3) height width_fraction (width_fraction * 3)
                 half_certain
      in b5)"

definition create_ground_truth_bb_cyclist :: "real array2 \<Rightarrow> real array2" where
  "create_ground_truth_bb_cyclist ground_truth_box = ground_truth_box"

definition create_ground_truth_bb_vehicle :: "real array2 \<Rightarrow> real array2" where
  "create_ground_truth_bb_vehicle ground_truth_box = ground_truth_box"

text \<open>
  \<^verbatim>\<open>_create_ground_truth_bb\<close>: \<^verbatim>\<open>np.ones((height, width))\<close> comes first and raises on a
  negative dimension; then the class is dispatched.
\<close>

definition create_ground_truth_bb :: "int \<Rightarrow> int \<Rightarrow> int \<Rightarrow> error + real array2" where
  "create_ground_truth_bb object_class width height =
     (if height < 0 \<or> width < 0 then Inl NegativeDimensions
      else let ground_truth_box = ones2 (nat height) (nat width) in
        if object_class = 2 then Inr (create_ground_truth_bb_pedestrian ground_truth_box)
        else if object_class = 4 then Inr (create_ground_truth_bb_cyclist ground_truth_box)
        else if object_class = 1 then Inr (create_ground_truth_bb_vehicle ground_truth_box)
        else Inl InvalidLabelClass)"

text \<open>
  One entry of the label dictionary: the fields \<^verbatim>\<open>type\<close>, \<^verbatim>\<open>x\<close>, \<^verbatim>\<open>y\<close>, \<^verbatim>\<open>width\<close>
  and \<^verbatim>\<open>height\<close>, all Python integers. The dictionary is iterated with
  \<^verbatim>\<open>.values()\<close>, so it is modelled by the list of its values in iteration order.
\<close>

record label =
  ltype :: int
  lx :: int
  ly :: int
  lwidth :: int
  lheight :: int

definition obj_idx_of :: "int \<Rightarrow> nat" where
  "obj_idx_of object_class =
     (if object_class = 1 then 1 else 0) * 0 + (if object_class = 2 then 1 else 0) * 1
       + (if object_class = 4 then 1 else 0) * 2"

text \<open>The body of the loop of \<^verbatim>\<open>create_ground_truth_maps\<close> for one label.\<close>

definition ground_truth_step :: "real tensor \<Rightarrow> label \<Rightarrow> error + real tensor" where
  "ground_truth_step maps elem =
     (let object_class = ltype elem in
      if object_class = 1 \<or> object_class = 2 \<or> object_class = 4 then
        (let width_bb = lwidth elem;
             height_bb = lheight elem;
             x = lx elem;
             y = ly elem;
             obj_idx = obj_idx_of object_class
         in case create_ground_truth_bb object_class width_bb height_bb of
              Inl e \<Rightarrow> Inl e
            | Inr box \<Rightarrow> assign_box maps obj_idx y (y + height_bb) x (x + width_bb) box)
      else Inr maps)"

fun ground_truth_loop :: "real tensor \<Rightarrow> label list \<Rightarrow> error + real tensor" where
  "ground_truth_loop maps [] = Inr maps"
| "ground_truth_loop maps (elem # rest) =
     (case ground_truth_step maps elem of
        Inl e \<Rightarrow> Inl e
      | Inr maps' \<Rightarrow> ground_truth_loop maps' rest)"

definition create_ground_truth_maps :: "label list \<Rightarrow> int \<Rightarrow> int \<Rightarrow> error + real tensor" where
  "create_ground_truth_maps ground_truth width_img height_img =
     (if height_img < 0 \<or> width_img < 0 then Inl NegativeDimensions
      else ground_truth_loop (zeros 3 (nat height_img) (nat width_img)) ground_truth)"


section \<open>Overlap metric\<close>

text \<open>
  The result of dividing two integer tensors in PyTorch is a float, which is NaN for
  \<open>0/0\<close> and infinite for \<open>n/0\<close> with \<open>n > 0\<close>.
\<close>

datatype tfloat = Num real | PosInf | NaN

definition true_divide :: "nat \<Rightarrow> nat \<Rightarrow> tfloat" where
  "true_divide i u =
     (if u = 0 then (if i = 0 then NaN else PosInf) else Num (real i / real u))"

definition nan_to_zero :: "tfloat \<Rightarrow> tfloat" where
  "nan_to_zero v = (case v of NaN \<Rightarrow> Num 0 | _ \<Rightarrow> v)"

text \<open>Broadcasting of two shapes, axis by axis: equal sizes, or one of them 1.\<close>

definition broadcastable :: "nat \<Rightarrow> nat \<Rightarrow> bool" where
  "broadcastable a b \<longleftrightarrow> a = b \<or> a = 1 \<or> b = 1"

definition broadcast_dim :: "nat \<Rightarrow> nat \<Rightarrow> nat" where
  "broadcast_dim a b = (if a = 1 then b else a)"

definition bidx :: "nat \<Rightarrow> nat \<Rightarrow> nat" where
  "bidx n i = (if n = 1 then 0 else i)"

definition zip_tensor ::
  "('a \<Rightarrow> 'b \<Rightarrow> 'c) \<Rightarrow> 'a tensor \<Rightarrow> 'b tensor \<Rightarrow> error + 'c tensor" where
  "zip_tensor f a b =
     (if broadcastable (chans a) (chans b) \<and> broadcastable (rows a) (rows b)
          \<and> broadcastable (cols a) (cols b)
      then Inr \<lparr>chans = broadcast_dim (chans a) (chans b),
                rows = broadcast_dim (rows a) (rows b),
                cols = broadcast_dim (cols a) (cols b),
                cell = (\<lambda>c r k. f (cell a (bidx (chans a) c) (bidx (rows a) r) (bidx (cols a) k))
                                   (cell b (bidx (chans b) c) (bidx (rows b) r) (bidx (cols b) k)))\<rparr>
      else Inl ShapeMismatch)"

text \<open>\<^verbatim>\<open>torch.sum(mask, axis=(1,2))\<close>: the number of true cells of each channel.\<close>

definition count_true :: "bool tensor \<Rightarrow> nat \<Rightarrow> nat" where
  "count_true m c =
     sum_list (map (\<lambda>r. sum_list (map (\<lambda>k. if cell m c r k then 1 else 0) [0..<cols m]))
                   [0..<rows m])"

definition sum_axes12 :: "bool tensor \<Rightarrow> nat list" where
  "sum_axes12 m = map (count_true m) [0..<chans m]"

definition compute_IoU_whole_img_per_class ::
  "real tensor \<Rightarrow> real tensor \<Rightarrow> real \<Rightarrow> error + tfloat list" where
  "compute_IoU_whole_img_per_class ground_truth_map estimated_heat_map threshold =
     (let est_bool = map_tensor (\<lambda>v. v \<ge> threshold) estimated_heat_map;
          gt_bool = map_tensor (\<lambda>v. v \<ge> threshold) ground_truth_map
      in case zip_tensor (\<and>) est_bool gt_bool of
           Inl e \<Rightarrow> Inl e
         | Inr both \<Rightarrow>
             (case zip_tensor (\<or>) est_bool gt_bool of
                Inl e \<Rightarrow> Inl e
              | Inr either \<Rightarrow>
                  (let intersection = sum_axes12 both;
                       union = sum_axes12 either;
                       iou_per_class = map (\<lambda>(i, u). true_divide i u) (zip intersection union)
                   in Inr (map nan_to_zero iou_per_class))))"


section \<open>Pooling\<close>

text \<open>
  A pooling layer without padding on an input axis of length \<open>n\<close>, with kernel \<open>k\<close> and
  stride \<open>s\<close>, has \<open>(n - k) div s + 1\<close> outputs; output \<open>i\<close> reads the input indices
  \<open>i * s, ..., i * s + k - 1\<close>. PyTorch raises when an axis is shorter than the kernel
  or when the input has no channel.
\<close>

definition pool_out :: "nat \<Rightarrow> nat \<Rightarrow> nat \<Rightarrow> nat" where
  "pool_out n k s = (n - k) div s + 1"

definition window :: "nat \<Rightarrow> nat \<Rightarrow> nat \<Rightarrow> nat list" where
  "window i k s = [i * s ..< i * s + k]"

definition window_cells :: "'a tensor \<Rightarrow> nat \<Rightarrow> nat list \<Rightarrow> nat list \<Rightarrow> 'a list" where
  "window_cells t c rs ks = concat (map (\<lambda>r. map (\<lambda>k. cell t c r k) ks) rs)"

fun maximum :: "real list \<Rightarrow> real" where
  "maximum [] = 0"
| "maximum (v # vs) = fold max vs v"

definition pool2d ::
  "(real list \<Rightarrow> real) \<Rightarrow> nat \<times> nat \<Rightarrow> nat \<times> nat \<Rightarrow> real tensor \<Rightarrow> error + real tensor" where
  "pool2d reduce kernel_size stride t =
     (case (kernel_size, stride) of ((kh, kw), (sh, sw)) \<Rightarrow>
        if chans t = 0 \<or> kh = 0 \<or> kw = 0 \<or> sh = 0 \<or> sw = 0 \<or> rows t < kh \<or> cols t < kw
        then Inl PoolOutputTooSmall
        else Inr \<lparr>chans = chans t,
                  rows = pool_out (rows t) kh sh,
                  cols = pool_out (cols t) kw sw,
                  cell = (\<lambda>c i j. reduce (window_cells t c (window i kh sh) (window j kw sw)))\<rparr>)"

definition MaxPool2d :: "nat \<times> nat \<Rightarrow> nat \<times> nat \<Rightarrow> real tensor \<Rightarrow> error + real tensor" where
  "MaxPool2d kernel_size stride t = pool2d maximum kernel_size stride t"

definition mean :: "real list \<Rightarrow> real" where
  "mean vs = sum_list vs / real (length vs)"

definition AvgPool2d :: "nat \<times> nat \<Rightarrow> nat \<times> nat \<Rightarrow> real tensor \<Rightarrow> error + real tensor" where
  "AvgPool2d kernel_size stride t = pool2d mean kernel_size stride t"

definition avgpool_tensor :: "real tensor \<Rightarrow> error + real tensor" where
  "avgpool_tensor img_tensor = AvgPool2d (10, 10) (10, 10) img_tensor"

definition maxpool_tensor :: "real tensor \<Rightarrow> error + real tensor" where
  "maxpool_tensor img_tensor = MaxPool2d (10, 10) (10, 10) img_tensor"

text \<open>
  \<^verbatim>\<open>torch.nn.functional.pad(t.unsqueeze(0), pad=(0,0,0,1), mode='replicate').squeeze(0)\<close>:
  no column is added, no row at the top, one row at the bottom, a copy of the last row.
\<close>

definition pad_replicate_bottom :: "'a tensor \<Rightarrow> error + 'a tensor" where
  "pad_replicate_bottom t =
     (if chans t = 0 \<or> rows t = 0 \<or> cols t = 0 then Inl PoolOutputTooSmall
      else Inr \<lparr>chans = chans t, rows = rows t + 1, cols = cols t,
                cell = (\<lambda>c r k. cell t c (min r (rows t - 1)) k)\<rparr>)"


section \<open>Lidar re-encoding and downsampling\<close>

definition lidar_max_range :: real where
  "lidar_max_range = 75.0"

text \<open>The four masked in-place updates at the start of \<^verbatim>\<open>pool_lidar_tensor\<close>.\<close>

definition reencode :: "real tensor \<Rightarrow> real tensor" where
  "reencode lidar_tensor =
     (let t1 = masked_set (\<lambda>v. v > lidar_max_range) lidar_max_range lidar_tensor;
          t2 = masked_set (\<lambda>v. v = - 1.0) (lidar_max_range + 1) t1;
          t3 = masked_map (\<lambda>v. v \<le> 25) (\<lambda>v. v * (- 6.2) + 255) t2;
          t4 = masked_map (\<lambda>v. v > 25 \<and> v \<le> lidar_max_range + 1) (\<lambda>v. v * (- 2) + 150) t3
      in t4)"

definition pool_lidar_tensor :: "real tensor \<Rightarrow> error + real tensor" where
  "pool_lidar_tensor lidar_tensor =
     (case MaxPool2d (20, 10) (10, 10) (reencode lidar_tensor) of
        Inl e \<Rightarrow> Inl e
      | Inr pooled \<Rightarrow>
          (case pad_replicate_bottom pooled of
             Inl e \<Rightarrow> Inl e
           | Inr padded \<Rightarrow> Inr (masked_set (\<lambda>v. v < 0) 0 padded)))"


section \<open>Point splatter\<close>

text \<open>Python's \<^verbatim>\<open>int()\<close> on a float truncates towards zero.\<close>

definition py_int :: "real \<Rightarrow> int" where
  "py_int v = (if v < 0 then \<lceil>v\<rceil> else \<lfloor>v\<rfloor>)"

text \<open>
  The body of the loop of \<^verbatim>\<open>lidar_array_to_image_like_tensor\<close> for one sample
  \<open>(x, y, d)\<close>, on a tensor created with the given \<^verbatim>\<open>shape\<close>.
\<close>

definition splat_step ::
  "nat \<times> nat \<times> nat \<Rightarrow> int \<Rightarrow> real tensor \<Rightarrow> real \<times> real \<times> real \<Rightarrow> error + real tensor" where
  "splat_step shp shift range_tensor sample =
     (case (shp, sample) of ((shape0, shape1, shape2), (x, y, d)) \<Rightarrow>
        let min_y = py_int (y - of_int shift);
            min_y = (if min_y < 0 then 0 else min_y);
            max_y = py_int (y + of_int shift + 1);
            max_y = (if max_y > int shape1 - 1 then int shape1 - 1 else max_y);
            min_x = py_int (x - of_int shift);
            min_x = (if min_x < 0 then 0 else min_x);
            max_x = py_int (x + of_int shift + 1);
            max_x = (if max_x > int shape2 - 1 then int shape2 - 1 else max_x)
        in fill3 range_tensor 0 min_y max_y min_x max_x d)"

fun splat_loop ::
  "nat \<times> nat \<times> nat \<Rightarrow> int \<Rightarrow> real tensor \<Rightarrow> (real \<times> real \<times> real) list
     \<Rightarrow> error + real tensor" where
  "splat_loop shp shift range_tensor [] = Inr range_tensor"
| "splat_loop shp shift range_tensor (sample # rest) =
     (case splat_step shp shift range_tensor sample of
        Inl e \<Rightarrow> Inl e
      | Inr range_tensor' \<Rightarrow> splat_loop shp shift range_tensor' rest)"

definition lidar_array_to_image_like_tensor ::
  "(real \<times> real \<times> real) list \<Rightarrow> nat \<times> nat \<times> nat \<Rightarrow> int \<Rightarrow> error + real tensor" where
  "lidar_array_to_image_like_tensor lidar_array shp kernel_size =
     (case shp of (shape0, shape1, shape2) \<Rightarrow>
        let shift = (kernel_size - 1) div 2;
            range_tensor = full shape0 shape1 shape2 (- 1.0)
        in splat_loop shp shift range_tensor lidar_array)"


text \<open>
  The re-encoding of section 4.1 of the specification, written as one function of the
  raw cell value, following the specification's words: clip above 75, send the
  no-return sentinel to 76, then the near band up to 25 and the far band up to 76.
\<close>

definition piecewise_reencode :: "real \<Rightarrow> real" where
  "piecewise_reencode d =
     (if d \<le> 25 then d * (- 6.2) + 255 else if d \<le> 76 then d * (- 2) + 150 else d)"

definition reencode_once :: "real \<Rightarrow> real" where
  "reencode_once raw =
     piecewise_reencode (if raw > 75 then 75 else if raw = - 1 then 76 else raw)"


section \<open>The per-frame pipeline\<close>

text \<open>
  The two places of \<^verbatim>\<open>waymo_to_pytorch_offline\<close> that produce the low-resolution
  lidar tensor and heat map of a frame, with the default image size and kernel size:
  \<^verbatim>\<open>range_tensor = lidar_array_to_image_like_tensor(lidar_array)\<close> followed by
  \<^verbatim>\<open>downsized_range_tensor = pool_lidar_tensor(range_tensor)\<close>, and
  \<^verbatim>\<open>heat_map = create_ground_truth_maps(label_dict)\<close> followed by
  \<^verbatim>\<open>downsized_heat_map = maxpool_tensor(heat_map)\<close>.
\<close>

definition downsized_range_tensor :: "(real \<times> real \<times> real) list \<Rightarrow> error + real tensor" where
  "downsized_range_tensor lidar_array =
     (case lidar_array_to_image_like_tensor lidar_array (1, 1280, 1920) 5 of
        Inl e \<Rightarrow> Inl e
      | Inr range_tensor \<Rightarrow> pool_lidar_tensor range_tensor)"

definition downsized_heat_map :: "label list \<Rightarrow> error + real tensor" where
  "downsized_heat_map label_dict =
     (case create_ground_truth_maps label_dict 1920 1280 of
        Inl e \<Rightarrow> Inl e
      | Inr heat_map \<Rightarrow> maxpool_tensor heat_map)"


text \<open>
  The invariant of the loop of \<^verbatim>\<open>create_ground_truth_maps\<close>: three channels of the
  image's size, every value between 0 and 1.
\<close>

definition heat_ok :: "nat \<Rightarrow> nat \<Rightarrow> real tensor \<Rightarrow> bool" where
  "heat_ok h w m \<longleftrightarrow> chans m = 3 \<and> rows m = h \<and> cols m = w
     \<and> (\<forall>c r k. 0 \<le> cell m c r k \<and> cell m c r k \<le> 1)"


section \<open>Basic facts about tensors\<close>

lemma cell_map_tensor [simp]: "cell (map_tensor f t) c r k = f (cell t c r k)"
  and chans_map_tensor [simp]: "chans (map_tensor f t) = chans t"
  and rows_map_tensor [simp]: "rows (map_tensor f t) = rows t"
  and cols_map_tensor [simp]: "cols (map_tensor f t) = cols t"
  by (simp_all add: map_tensor_def)

lemma cell_full [simp]: "cell (full c h w v) i r k = v"
  and chans_full [simp]: "chans (full c h w v) = c"
  and rows_full [simp]: "rows (full c h w v) = h"
  and cols_full [simp]: "cols (full c h w v) = w"
  by (simp_all add: full_def)

lemma cell_masked_set [simp]:
  "cell (masked_set p v t) c r k = (if p (cell t c r k) then v else cell t c r k)"
  and chans_masked_set [simp]: "chans (masked_set p v t) = chans t"
  and rows_masked_set [simp]: "rows (masked_set p v t) = rows t"
  and cols_masked_set [simp]: "cols (masked_set p v t) = cols t"
  by (simp_all add: masked_set_def)

lemma cell_masked_map [simp]:
  "cell (masked_map p f t) c r k = (if p (cell t c r k) then f (cell t c r k) else cell t c r k)"
  and chans_masked_map [simp]: "chans (masked_map p f t) = chans t"
  and rows_masked_map [simp]: "rows (masked_map p f t) = rows t"
  and cols_masked_map [simp]: "cols (masked_map p f t) = cols t"
  by (simp_all add: masked_map_def)


section \<open>The range re-encoding\<close>

text \<open>What the four updates do to one cell, by the value it held on entry.\<close>

lemma cell_reencode:
  "cell (reencode t) c r k =
     (let d = cell t c r k in
      if d = - 1 then - 2
      else if d \<le> 25 then d * (- 6.2) + 255
      else if d \<le> 75 then d * (- 2) + 150
      else 0)"
  by (simp add: reencode_def lidar_max_range_def Let_def)

lemma shape_reencode [simp]:
  "chans (reencode t) = chans t" "rows (reencode t) = rows t" "cols (reencode t) = cols t"
  by (simp_all add: reencode_def Let_def)

text \<open>
  Claim C3. A cell that holds a raw distance \<open>d\<close> in \<open>[0, 25]\<close> is re-encoded to
  \<open>-6.2 d + 255\<close>, which decreases strictly as \<open>d\<close> grows; distances below 25 land in
  \<open>(100, 255]\<close> and 25 itself on 100. After the clipping to 75 and the remapping of the
  sentinel \<open>-1\<close> to 76, the values in \<open>(25, 76]\<close> are those in \<open>(25, 75]\<close>, 75 for
  every raw value above 75, and 76 for the sentinel: each is re-encoded to
  \<open>-2 d + 150\<close>, which stays below the ceiling \<open>-2 \<sqdot> 25 + 150 = 100\<close> that the near
  band reaches at 25.
\<close>

theorem reencode_two_bands:
  fixes t t' :: "real tensor"
  assumes "cell t c r k = d" and "cell t' c' r' k' = d'"
  shows "(0 \<le> d \<and> d \<le> 25 \<longrightarrow> cell (reencode t) c r k = - 6.2 * d + 255)
    \<and> (0 \<le> d \<and> d < d' \<and> d' \<le> 25 \<longrightarrow>
          cell (reencode t') c' r' k' < cell (reencode t) c r k)
    \<and> (0 \<le> d \<and> d < 25 \<longrightarrow> 100 < cell (reencode t) c r k \<and> cell (reencode t) c r k \<le> 255)
    \<and> (d = 25 \<longrightarrow> cell (reencode t) c r k = 100)
    \<and> (25 < d \<and> d \<le> 75 \<longrightarrow>
          cell (reencode t) c r k = - 2 * d + 150 \<and> cell (reencode t) c r k < - 2 * 25 + 150)
    \<and> (75 < d \<longrightarrow> cell (reencode t) c r k = - 2 * 75 + 150)
    \<and> (d = - 1 \<longrightarrow> cell (reencode t) c r k = - 2 * 76 + 150)"
  using assms unfolding cell_reencode Let_def by auto

theorem reencode_two_bands_witness:
  "cell (reencode (full 1 1 1 10)) 0 0 0 = 193
   \<and> cell (reencode (full 1 1 1 20)) 0 0 0 < cell (reencode (full 1 1 1 10)) 0 0 0
   \<and> cell (reencode (full 1 1 1 20)) 0 0 0 > 100
   \<and> cell (reencode (full 1 1 1 25)) 0 0 0 = 100
   \<and> cell (reencode (full 1 1 1 50)) 0 0 0 = 50
   \<and> cell (reencode (full 1 1 1 76.5)) 0 0 0 = 0
   \<and> cell (reencode (full 1 1 1 (- 1))) 0 0 0 = - 2"
  using reencode_two_bands [of "full 1 1 1 10" 0 0 0 10 "full 1 1 1 20" 0 0 0 20]
    reencode_two_bands [of "full 1 1 1 20" 0 0 0 20 "full 1 1 1 20" 0 0 0 20]
    reencode_two_bands [of "full 1 1 1 25" 0 0 0 25 "full 1 1 1 25" 0 0 0 25]
    reencode_two_bands [of "full 1 1 1 50" 0 0 0 50 "full 1 1 1 50" 0 0 0 50]
    reencode_two_bands [of "full 1 1 1 76.5" 0 0 0 "76.5" "full 1 1 1 50" 0 0 0 50]
    reencode_two_bands [of "full 1 1 1 (- 1)" 0 0 0 "- 1" "full 1 1 1 50" 0 0 0 50]
  by simp

text \<open>
  Claim C8. Each cell is re-encoded once. A value written by the near-band update is
  at least 100 and so is never selected by the far-band update (which selects values
  above 25 and up to 76); hence the two masked updates, run one after the other, are
  the piecewise function applied once to every cell, and the whole re-encoding step is
  \<open>reencode_once\<close> applied once to every raw cell.
\<close>

theorem reencode_applied_once:
  fixes t :: "real tensor"
  shows "(\<forall>d. d \<le> 25 \<longrightarrow> d * (- 6.2) + 255 \<ge> 100
              \<and> \<not> (d * (- 6.2) + 255 > 25 \<and> d * (- 6.2) + 255 \<le> lidar_max_range + 1))
    \<and> masked_map (\<lambda>v. v > 25 \<and> v \<le> lidar_max_range + 1) (\<lambda>v. v * (- 2) + 150)
        (masked_map (\<lambda>v. v \<le> 25) (\<lambda>v. v * (- 6.2) + 255) t)
       = map_tensor piecewise_reencode t
    \<and> reencode t = map_tensor reencode_once t"
proof (intro conjI allI impI)
  fix d :: real
  assume "d \<le> 25"
  then show "d * (- 6.2) + 255 \<ge> 100" by simp
  then show "\<not> (d * (- 6.2) + 255 > 25 \<and> d * (- 6.2) + 255 \<le> lidar_max_range + 1)"
    by (simp add: lidar_max_range_def)
next
  show "masked_map (\<lambda>v. v > 25 \<and> v \<le> lidar_max_range + 1) (\<lambda>v. v * (- 2) + 150)
        (masked_map (\<lambda>v. v \<le> 25) (\<lambda>v. v * (- 6.2) + 255) t)
       = map_tensor piecewise_reencode t"
    by (auto simp add: masked_map_def map_tensor_def piecewise_reencode_def
        lidar_max_range_def fun_eq_iff)
next
  show "reencode t = map_tensor reencode_once t"
    by (auto simp add: reencode_def masked_map_def masked_set_def map_tensor_def
        reencode_once_def piecewise_reencode_def lidar_max_range_def fun_eq_iff Let_def)
qed

theorem reencode_applied_once_witness:
  "(10::real) * (- 6.2) + 255 \<ge> 100
   \<and> \<not> ((10::real) * (- 6.2) + 255 > 25 \<and> (10::real) * (- 6.2) + 255 \<le> lidar_max_range + 1)
   \<and> cell (reencode (full 1 1 1 10)) 0 0 0 = 193
   \<and> cell (reencode (full 1 1 1 30)) 0 0 0 = 90"
proof -
  have a: "(10::real) \<le> 25" by simp
  have b: "reencode (full 1 1 1 10) = map_tensor reencode_once (full 1 1 1 10)"
    and c: "reencode (full 1 1 1 30) = map_tensor reencode_once (full 1 1 1 30)"
    using reencode_applied_once by blast+
  have "(10::real) * (- 6.2) + 255 \<ge> 100
     \<and> \<not> ((10::real) * (- 6.2) + 255 > 25 \<and> (10::real) * (- 6.2) + 255 \<le> lidar_max_range + 1)"
    using reencode_applied_once [of "full 1 1 1 10"] a by blast
  moreover have "cell (reencode (full 1 1 1 10)) 0 0 0 = 193"
    unfolding b by (simp add: reencode_once_def piecewise_reencode_def)
  moreover have "cell (reencode (full 1 1 1 30)) 0 0 0 = 90"
    unfolding c by (simp add: reencode_once_def piecewise_reencode_def)
  ultimately show ?thesis by simp
qed


section \<open>Ground-truth synthesis\<close>

lemma entry_fill2 [simp]:
  "entry (fill2 b r0 r1 c0 c1 v) r c =
     (if in_slice (nrows b) r0 r1 r \<and> in_slice (ncols b) c0 c1 c then v else entry b r c)"
  and nrows_fill2 [simp]: "nrows (fill2 b r0 r1 c0 c1 v) = nrows b"
  and ncols_fill2 [simp]: "ncols (fill2 b r0 r1 c0 c1 v) = ncols b"
  by (simp_all add: fill2_def)

lemma ones2_simps [simp]:
  "entry (ones2 h w) r c = 1" "nrows (ones2 h w) = h" "ncols (ones2 h w) = w"
  by (simp_all add: ones2_def)

lemma slice_bound_nonneg: "0 \<le> i \<Longrightarrow> slice_bound n i = min (nat i) n"
  by (simp add: slice_bound_def)

lemma in_slice_nonneg:
  "0 \<le> a \<Longrightarrow> 0 \<le> b \<Longrightarrow> k < n \<Longrightarrow> in_slice n a b k \<longleftrightarrow> a \<le> int k \<and> int k < b"
  by (auto simp add: in_slice_def slice_bound_def)

lemma shape_pedestrian [simp]:
  "nrows (create_ground_truth_bb_pedestrian b) = nrows b"
  "ncols (create_ground_truth_bb_pedestrian b) = ncols b"
  by (simp_all add: create_ground_truth_bb_pedestrian_def Let_def)

lemma entry_pedestrian:
  assumes "r < h" and "c < w"
  shows "entry (create_ground_truth_bb_pedestrian (ones2 h w)) r c =
     (if r < h div 5 \<and> (c < w div 4 \<or> 3 * (w div 4) \<le> c) then 0.3
      else if 3 * (h div 5) \<le> r \<and> (c < w div 4 \<or> 3 * (w div 4) \<le> c) then 0.5
      else if 3 * (h div 5) \<le> r \<and> w div 4 \<le> c \<and> c < 3 * (w div 4) then 0.75
      else 1)"
proof -
  have hf: "int h div 5 = int (h div 5)" and wf: "int w div 4 = int (w div 4)"
    by (simp_all add: zdiv_int)
  show ?thesis
    using assms
    unfolding create_ground_truth_bb_pedestrian_def Let_def
    by (simp add: in_slice_nonneg hf wf) linarith
qed

lemma box_of_class:
  assumes "create_ground_truth_bb cls w h = Inr box"
  shows "nrows box = nat h \<and> ncols box = nat w \<and> 0 \<le> h \<and> 0 \<le> w
     \<and> (cls = 1 \<or> cls = 2 \<or> cls = 4) \<and> (\<forall>r c. 0 \<le> entry box r c \<and> entry box r c \<le> 1)"
  using assms
  by (auto simp add: create_ground_truth_bb_def create_ground_truth_bb_pedestrian_def
      create_ground_truth_bb_cyclist_def create_ground_truth_bb_vehicle_def Let_def
      split: if_splits)

lemma box_exists:
  assumes "cls = 1 \<or> cls = 2 \<or> cls = 4" and "0 \<le> w" and "0 \<le> h"
  shows "\<exists>box. create_ground_truth_bb cls w h = Inr box"
  using assms by (auto simp add: create_ground_truth_bb_def Let_def)

lemma slice_len_inside:
  assumes "0 \<le> a" and "0 \<le> l" and "a + l \<le> int n"
  shows "slice_len n a (a + l) = nat l"
  using assms by (auto simp add: slice_len_def slice_bound_def)

lemma obj_idx_lt: "obj_idx_of cls < 3"
  by (simp add: obj_idx_of_def)

lemma step_skip:
  "\<not> (ltype l = 1 \<or> ltype l = 2 \<or> ltype l = 4) \<Longrightarrow> ground_truth_step m l = Inr m"
  by (simp add: ground_truth_step_def)

lemma step_not_invalid: "ground_truth_step m l \<noteq> Inl InvalidLabelClass"
  by (auto simp add: ground_truth_step_def Let_def create_ground_truth_bb_def assign_box_def
      split: sum.splits if_splits)

lemma step_inside:
  assumes "heat_ok h w m"
    and "ltype l = 1 \<or> ltype l = 2 \<or> ltype l = 4"
    and "0 \<le> lx l" "0 \<le> ly l" "0 \<le> lwidth l" "0 \<le> lheight l"
    and "lx l + lwidth l \<le> int w" "ly l + lheight l \<le> int h"
  shows "\<exists>m'. ground_truth_step m l = Inr m' \<and> heat_ok h w m'"
proof -
  obtain box where box: "create_ground_truth_bb (ltype l) (lwidth l) (lheight l) = Inr box"
    using box_exists [OF assms(2) assms(5) assms(6)] by blast
  note b = box_of_class [OF box]
  have sh: "chans m = 3" "rows m = h" "cols m = w"
    using assms(1) by (simp_all add: heat_ok_def)
  have rl: "slice_len h (ly l) (ly l + lheight l) = nat (lheight l)"
    and cl: "slice_len w (lx l) (lx l + lwidth l) = nat (lwidth l)"
    using assms by (simp_all add: slice_len_inside)
  have ch: "\<not> 3 \<le> obj_idx_of (ltype l)"
    using obj_idx_lt [of "ltype l"] by simp
  show ?thesis
    using assms(1,2) b
    by (simp add: ground_truth_step_def Let_def box assign_box_def sh rl cl ch heat_ok_def)
qed

lemma loop_not_invalid: "ground_truth_loop m ls \<noteq> Inl InvalidLabelClass"
  by (induction ls arbitrary: m) (auto simp add: step_not_invalid split: sum.splits)

lemma loop_filter:
  "ground_truth_loop m (filter (\<lambda>l. ltype l = 1 \<or> ltype l = 2 \<or> ltype l = 4) ls)
     = ground_truth_loop m ls"
  by (induction ls arbitrary: m) (auto simp add: step_skip split: sum.splits)

lemma loop_inside:
  assumes "heat_ok h w m"
    and "\<forall>l\<in>set ls. (ltype l = 1 \<or> ltype l = 2 \<or> ltype l = 4) \<longrightarrow>
           0 \<le> lx l \<and> 0 \<le> ly l \<and> 0 \<le> lwidth l \<and> 0 \<le> lheight l
           \<and> lx l + lwidth l \<le> int w \<and> ly l + lheight l \<le> int h"
  shows "\<exists>m'. ground_truth_loop m ls = Inr m' \<and> heat_ok h w m'"
  using assms
proof (induction ls arbitrary: m)
  case Nil
  then show ?case by simp
next
  case (Cons l ls)
  show ?case
  proof (cases "ltype l = 1 \<or> ltype l = 2 \<or> ltype l = 4")
    case True
    with Cons.prems obtain m' where m': "ground_truth_step m l = Inr m'" "heat_ok h w m'"
      using step_inside [of h w m l] by auto
    with Cons.IH [of m'] Cons.prems(2) show ?thesis by simp
  next
    case False
    with Cons.IH [of m] Cons.prems show ?thesis by (simp add: step_skip)
  qed
qed

lemma zeros_ok: "heat_ok h w (zeros 3 h w)"
  by (simp add: heat_ok_def zeros_def full_def)


text \<open>
  Claim C7. For a PEDESTRIAN box (class 2) of height \<open>h\<close> and width \<open>w\<close> the template
  is the all-ones box in which, with the fractions \<open>h div 5\<close> and \<open>w div 4\<close> (integer
  division; three fifths and three quarters are three times these fractions), the rows
  below \<open>h div 5\<close> of the columns below \<open>w div 4\<close> and from \<open>3 (w div 4)\<close> on hold 0.3,
  the rows from \<open>3 (h div 5)\<close> on of those columns hold 0.5, the rows from
  \<open>3 (h div 5)\<close> on of the columns between hold 0.75, and every other cell holds 1.
  For a box of height 10 and width 8 at the origin of the default image, the
  pedestrian channel holds 0.3 at (0,0), 0.5 at (9,0), 0.75 at (9,4) and 1 at (5,4)
  (row, column).
\<close>

theorem pedestrian_template:
  assumes "r < h" and "c < w"
  shows "create_ground_truth_bb 2 (int w) (int h)
           = Inr (create_ground_truth_bb_pedestrian (ones2 h w))
    \<and> nrows (create_ground_truth_bb_pedestrian (ones2 h w)) = h
    \<and> ncols (create_ground_truth_bb_pedestrian (ones2 h w)) = w
    \<and> entry (create_ground_truth_bb_pedestrian (ones2 h w)) r c =
        (if r < h div 5 \<and> (c < w div 4 \<or> 3 * (w div 4) \<le> c) then 0.3
         else if 3 * (h div 5) \<le> r \<and> (c < w div 4 \<or> 3 * (w div 4) \<le> c) then 0.5
         else if 3 * (h div 5) \<le> r \<and> w div 4 \<le> c \<and> c < 3 * (w div 4) then 0.75
         else 1)
    \<and> lookup (create_ground_truth_maps
          [\<lparr>ltype = 2, lx = 0, ly = 0, lwidth = 8, lheight = 10\<rparr>] 1920 1280) 1 0 0 = Inr 0.3
    \<and> lookup (create_ground_truth_maps
          [\<lparr>ltype = 2, lx = 0, ly = 0, lwidth = 8, lheight = 10\<rparr>] 1920 1280) 1 9 0 = Inr 0.5
    \<and> lookup (create_ground_truth_maps
          [\<lparr>ltype = 2, lx = 0, ly = 0, lwidth = 8, lheight = 10\<rparr>] 1920 1280) 1 9 4 = Inr 0.75
    \<and> lookup (create_ground_truth_maps
          [\<lparr>ltype = 2, lx = 0, ly = 0, lwidth = 8, lheight = 10\<rparr>] 1920 1280) 1 5 4 = Inr 1"
proof -
  have origin: "lookup (create_ground_truth_maps
          [\<lparr>ltype = 2, lx = 0, ly = 0, lwidth = 8, lheight = 10\<rparr>] 1920 1280) 1 i j
        = Inr (entry (create_ground_truth_bb_pedestrian (ones2 10 8)) i j)"
    if "i < 10" and "j < 8" for i j
    using that
    by (simp add: lookup_def create_ground_truth_maps_def ground_truth_step_def
        create_ground_truth_bb_def assign_box_def obj_idx_of_def zeros_def
        slice_len_def slice_bound_def in_slice_def Let_def)
  have "create_ground_truth_bb 2 (int w) (int h)
           = Inr (create_ground_truth_bb_pedestrian (ones2 h w))"
    by (simp add: create_ground_truth_bb_def)
  moreover have "lookup (create_ground_truth_maps
          [\<lparr>ltype = 2, lx = 0, ly = 0, lwidth = 8, lheight = 10\<rparr>] 1920 1280) 1 0 0 = Inr 0.3"
    using origin [of 0 0] by (simp add: entry_pedestrian)
  moreover have "lookup (create_ground_truth_maps
          [\<lparr>ltype = 2, lx = 0, ly = 0, lwidth = 8, lheight = 10\<rparr>] 1920 1280) 1 9 0 = Inr 0.5"
    using origin [of 9 0] by (simp add: entry_pedestrian)
  moreover have "lookup (create_ground_truth_maps
          [\<lparr>ltype = 2, lx = 0, ly = 0, lwidth = 8, lheight = 10\<rparr>] 1920 1280) 1 9 4 = Inr 0.75"
    using origin [of 9 4] by (simp add: entry_pedestrian)
  moreover have "lookup (create_ground_truth_maps
          [\<lparr>ltype = 2, lx = 0, ly = 0, lwidth = 8, lheight = 10\<rparr>] 1920 1280) 1 5 4 = Inr 1"
    using origin [of 5 4] by (simp add: entry_pedestrian)
  ultimately show ?thesis
    using entry_pedestrian [OF assms] by simp
qed

theorem pedestrian_template_witness:
  "create_ground_truth_bb 2 8 10 = Inr (create_ground_truth_bb_pedestrian (ones2 10 8))
   \<and> entry (create_ground_truth_bb_pedestrian (ones2 10 8)) 0 0 = 0.3
   \<and> entry (create_ground_truth_bb_pedestrian (ones2 10 8)) 9 7 = 0.5
   \<and> entry (create_ground_truth_bb_pedestrian (ones2 10 8)) 9 4 = 0.75
   \<and> entry (create_ground_truth_bb_pedestrian (ones2 10 8)) 5 4 = 1"
  using pedestrian_template [of 0 10 0 8] pedestrian_template [of 9 10 7 8]
    pedestrian_template [of 9 10 4 8] pedestrian_template [of 5 10 4 8]
  by simp

text \<open>
  Claim C1, as amended. \<^verbatim>\<open>create_ground_truth_maps\<close> guards the call of
  \<^verbatim>\<open>_create_ground_truth_bb\<close> with the test that the class is 1, 2 or 4, so a label of
  any other class is skipped: the function never fails with the unrecognized-class
  failure, and its result is that for the collection without the unrecognized labels.
  The failure is raised by \<^verbatim>\<open>_create_ground_truth_bb\<close> itself when it is called with
  another class (and dimensions that are not negative). A collection whose recognized
  labels all have boxes inside the image returns normally.
\<close>

theorem unrecognized_class_skipped:
  "create_ground_truth_maps ground_truth width_img height_img \<noteq> Inl InvalidLabelClass
   \<and> create_ground_truth_maps ground_truth width_img height_img
       = create_ground_truth_maps
           (filter (\<lambda>l. ltype l = 1 \<or> ltype l = 2 \<or> ltype l = 4) ground_truth)
           width_img height_img
   \<and> (object_class \<noteq> 1 \<and> object_class \<noteq> 2 \<and> object_class \<noteq> 4 \<and> 0 \<le> width \<and> 0 \<le> height
        \<longrightarrow> create_ground_truth_bb object_class width height = Inl InvalidLabelClass)
   \<and> (0 \<le> width_img \<and> 0 \<le> height_img
        \<and> (\<forall>l\<in>set ground_truth. (ltype l = 1 \<or> ltype l = 2 \<or> ltype l = 4) \<longrightarrow>
              0 \<le> lx l \<and> 0 \<le> ly l \<and> 0 \<le> lwidth l \<and> 0 \<le> lheight l
              \<and> lx l + lwidth l \<le> width_img \<and> ly l + lheight l \<le> height_img)
        \<longrightarrow> (\<exists>maps. create_ground_truth_maps ground_truth width_img height_img = Inr maps))"
proof (intro conjI impI)
  show "create_ground_truth_maps ground_truth width_img height_img \<noteq> Inl InvalidLabelClass"
    by (simp add: create_ground_truth_maps_def loop_not_invalid)
  show "create_ground_truth_maps ground_truth width_img height_img
       = create_ground_truth_maps
           (filter (\<lambda>l. ltype l = 1 \<or> ltype l = 2 \<or> ltype l = 4) ground_truth)
           width_img height_img"
    by (simp add: create_ground_truth_maps_def loop_filter)
next
  assume "object_class \<noteq> 1 \<and> object_class \<noteq> 2 \<and> object_class \<noteq> 4 \<and> 0 \<le> width \<and> 0 \<le> height"
  then show "create_ground_truth_bb object_class width height = Inl InvalidLabelClass"
    by (simp add: create_ground_truth_bb_def)
next
  assume a: "0 \<le> width_img \<and> 0 \<le> height_img
        \<and> (\<forall>l\<in>set ground_truth. (ltype l = 1 \<or> ltype l = 2 \<or> ltype l = 4) \<longrightarrow>
              0 \<le> lx l \<and> 0 \<le> ly l \<and> 0 \<le> lwidth l \<and> 0 \<le> lheight l
              \<and> lx l + lwidth l \<le> width_img \<and> ly l + lheight l \<le> height_img)"
  then have "\<exists>m'. ground_truth_loop (zeros 3 (nat height_img) (nat width_img)) ground_truth
                 = Inr m' \<and> heat_ok (nat height_img) (nat width_img) m'"
    by (intro loop_inside zeros_ok) simp
  with a show "\<exists>maps. create_ground_truth_maps ground_truth width_img height_img = Inr maps"
    by (auto simp add: create_ground_truth_maps_def)
qed

theorem unrecognized_class_skipped_witness:
  "create_ground_truth_maps
      [\<lparr>ltype = 3, lx = 5, ly = 5, lwidth = 10, lheight = 10\<rparr>,
       \<lparr>ltype = 1, lx = 100, ly = 200, lwidth = 50, lheight = 60\<rparr>] 1920 1280
     \<noteq> Inl InvalidLabelClass
   \<and> create_ground_truth_maps
      [\<lparr>ltype = 3, lx = 5, ly = 5, lwidth = 10, lheight = 10\<rparr>,
       \<lparr>ltype = 1, lx = 100, ly = 200, lwidth = 50, lheight = 60\<rparr>] 1920 1280
     = create_ground_truth_maps
        [\<lparr>ltype = 1, lx = 100, ly = 200, lwidth = 50, lheight = 60\<rparr>] 1920 1280
   \<and> create_ground_truth_bb 3 10 10 = Inl InvalidLabelClass
   \<and> (\<exists>maps. create_ground_truth_maps
        [\<lparr>ltype = 3, lx = 5, ly = 5, lwidth = 10, lheight = 10\<rparr>,
         \<lparr>ltype = 1, lx = 100, ly = 200, lwidth = 50, lheight = 60\<rparr>] 1920 1280 = Inr maps)"
proof -
  let ?gt = "[\<lparr>ltype = 3, lx = 5, ly = 5, lwidth = 10, lheight = 10\<rparr>,
              \<lparr>ltype = 1, lx = 100, ly = 200, lwidth = 50, lheight = 60\<rparr>]"
  have f: "filter (\<lambda>l. ltype l = 1 \<or> ltype l = 2 \<or> ltype l = 4) ?gt
             = [\<lparr>ltype = 1, lx = 100, ly = 200, lwidth = 50, lheight = 60\<rparr>]"
    by simp
  have b: "(0::int) \<le> 1920 \<and> (0::int) \<le> 1280
        \<and> (\<forall>l\<in>set ?gt. (ltype l = 1 \<or> ltype l = 2 \<or> ltype l = 4) \<longrightarrow>
              0 \<le> lx l \<and> 0 \<le> ly l \<and> 0 \<le> lwidth l \<and> 0 \<le> lheight l
              \<and> lx l + lwidth l \<le> 1920 \<and> ly l + lheight l \<le> 1280)"
    by simp
  have n: "(3::int) \<noteq> 1 \<and> (3::int) \<noteq> 2 \<and> (3::int) \<noteq> 4 \<and> (0::int) \<le> 10 \<and> (0::int) \<le> 10"
    by simp
  show ?thesis
    using unrecognized_class_skipped [of ?gt 1920 1280 3 10 10] b n
    unfolding f by blast
qed

text \<open>
  The claim as the specification states it fails: a label of class 3 does not make
  \<^verbatim>\<open>create_ground_truth_maps\<close> fail; the call returns the untouched all-zero maps.
\<close>

theorem unrecognized_class_counterexample:
  "create_ground_truth_maps
      [\<lparr>ltype = 3, lx = 0, ly = 0, lwidth = 10, lheight = 10\<rparr>] 1920 1280
     = Inr (zeros 3 1280 1920)"
  by (simp add: create_ground_truth_maps_def ground_truth_step_def)

text \<open>
  Claim C10. The synthesis does not clip a box to the image. When every recognized
  label of the collection has a box (of non-negative width and height) that lies inside
  the image, \<open>0 \<le> x\<close>, \<open>0 \<le> y\<close>, \<open>x + width \<le> width_img\<close> and
  \<open>y + height \<le> height_img\<close>, every assignment of a template succeeds, and the
  returned map has three channels of the image's size with every cell in \<open>[0, 1]\<close>.
  A vehicle box that crosses the right edge and a cyclist box that crosses the bottom
  edge of the default image make the call fail with a shape mismatch.
\<close>

theorem boxes_inside_image_required:
  assumes "0 \<le> width_img" and "0 \<le> height_img"
    and "\<forall>l\<in>set ground_truth. (ltype l = 1 \<or> ltype l = 2 \<or> ltype l = 4) \<longrightarrow>
           0 \<le> lx l \<and> 0 \<le> ly l \<and> 0 \<le> lwidth l \<and> 0 \<le> lheight l
           \<and> lx l + lwidth l \<le> width_img \<and> ly l + lheight l \<le> height_img"
  shows "(\<exists>maps. create_ground_truth_maps ground_truth width_img height_img = Inr maps
            \<and> shape maps = (3, nat height_img, nat width_img)
            \<and> (\<forall>c r k. 0 \<le> cell maps c r k \<and> cell maps c r k \<le> 1))
    \<and> create_ground_truth_maps
         [\<lparr>ltype = 1, lx = 1915, ly = 0, lwidth = 10, lheight = 10\<rparr>] 1920 1280
        = Inl ShapeMismatch
    \<and> create_ground_truth_maps
         [\<lparr>ltype = 4, lx = 0, ly = 1275, lwidth = 10, lheight = 10\<rparr>] 1920 1280
        = Inl ShapeMismatch"
proof (intro conjI)
  have "\<exists>m'. ground_truth_loop (zeros 3 (nat height_img) (nat width_img)) ground_truth
                 = Inr m' \<and> heat_ok (nat height_img) (nat width_img) m'"
    using assms by (intro loop_inside zeros_ok) simp
  then show "\<exists>maps. create_ground_truth_maps ground_truth width_img height_img = Inr maps
            \<and> shape maps = (3, nat height_img, nat width_img)
            \<and> (\<forall>c r k. 0 \<le> cell maps c r k \<and> cell maps c r k \<le> 1)"
    using assms(1,2) by (auto simp add: create_ground_truth_maps_def heat_ok_def shape_def)
  show "create_ground_truth_maps
         [\<lparr>ltype = 1, lx = 1915, ly = 0, lwidth = 10, lheight = 10\<rparr>] 1920 1280
        = Inl ShapeMismatch"
    by (simp add: create_ground_truth_maps_def ground_truth_step_def
        create_ground_truth_bb_def create_ground_truth_bb_vehicle_def assign_box_def
        obj_idx_of_def zeros_def slice_len_def slice_bound_def Let_def)
  show "create_ground_truth_maps
         [\<lparr>ltype = 4, lx = 0, ly = 1275, lwidth = 10, lheight = 10\<rparr>] 1920 1280
        = Inl ShapeMismatch"
    by (simp add: create_ground_truth_maps_def ground_truth_step_def
        create_ground_truth_bb_def create_ground_truth_bb_cyclist_def assign_box_def
        obj_idx_of_def zeros_def slice_len_def slice_bound_def Let_def)
qed

theorem boxes_inside_image_required_witness:
  "\<exists>maps. create_ground_truth_maps
        [\<lparr>ltype = 2, lx = 1910, ly = 1270, lwidth = 10, lheight = 10\<rparr>,
         \<lparr>ltype = 1, lx = 100, ly = 200, lwidth = 50, lheight = 60\<rparr>] 1920 1280 = Inr maps
      \<and> shape maps = (3, 1280, 1920)
      \<and> 0 \<le> cell maps 1 1275 1915 \<and> cell maps 1 1275 1915 \<le> 1"
proof -
  have "\<exists>maps. create_ground_truth_maps
        [\<lparr>ltype = 2, lx = 1910, ly = 1270, lwidth = 10, lheight = 10\<rparr>,
         \<lparr>ltype = 1, lx = 100, ly = 200, lwidth = 50, lheight = 60\<rparr>] 1920 1280 = Inr maps
      \<and> shape maps = (3, nat 1280, nat 1920)
      \<and> (\<forall>c r k. 0 \<le> cell maps c r k \<and> cell maps c r k \<le> 1)"
    using boxes_inside_image_required
      [of 1920 1280 "[\<lparr>ltype = 2, lx = 1910, ly = 1270, lwidth = 10, lheight = 10\<rparr>,
         \<lparr>ltype = 1, lx = 100, ly = 200, lwidth = 50, lheight = 60\<rparr>]"]
    by simp
  then show ?thesis by auto
qed


section \<open>Pooling and the lidar downsampler\<close>

lemma pool2d_ok:
  assumes "0 < chans t" "0 < kh" "0 < kw" "0 < sh" "0 < sw" "kh \<le> rows t" "kw \<le> cols t"
  shows "pool2d red (kh, kw) (sh, sw) t =
     Inr \<lparr>chans = chans t, rows = pool_out (rows t) kh sh, cols = pool_out (cols t) kw sw,
          cell = (\<lambda>c i j. red (window_cells t c (window i kh sh) (window j kw sw)))\<rparr>"
  using assms by (simp add: pool2d_def)

lemma maximum_Max: "maximum xs = Max (set xs)" if "xs \<noteq> []"
proof (cases xs)
  case Nil
  then show ?thesis using that by simp
next
  case (Cons a list)
  then show ?thesis using Max.set_eq_fold [of a list] by simp
qed

lemma set_window_cells:
  "set (window_cells t c rs ks) = (\<lambda>(r, k). cell t c r k) ` (set rs \<times> set ks)"
  by (auto simp add: window_cells_def)

lemma window_cells_empty: "window_cells t c rs ks = [] \<longleftrightarrow> rs = [] \<or> ks = []"
  by (auto simp add: window_cells_def)

lemma window_nonempty: "0 < k \<Longrightarrow> window i k s \<noteq> []"
  by (simp add: window_def)

lemma maximum_const:
  assumes "rs \<noteq> []" "ks \<noteq> []" and "\<forall>r\<in>set rs. \<forall>k\<in>set ks. cell t c r k = v"
  shows "maximum (window_cells t c rs ks) = v"
proof -
  have ne: "window_cells t c rs ks \<noteq> []"
    using assms(1,2) by (simp add: window_cells_empty)
  have "set (window_cells t c rs ks) = {v}"
    using assms by (auto simp add: set_window_cells neq_Nil_conv)
  then show ?thesis
    by (simp add: maximum_Max [OF ne])
qed

lemma pool_lidar_ok:
  assumes "0 < chans t" "20 \<le> rows t" "10 \<le> cols t"
  shows "pool_lidar_tensor t =
     Inr \<lparr>chans = chans t, rows = pool_out (rows t) 20 10 + 1, cols = pool_out (cols t) 10 10,
          cell = (\<lambda>c i j. max 0 (maximum (window_cells (reencode t) c
                     (window (min i (pool_out (rows t) 20 10 - 1)) 20 10) (window j 10 10))))\<rparr>"
  using assms
  by (simp add: pool_lidar_tensor_def MaxPool2d_def pool2d_ok pad_replicate_bottom_def
      pool_out_def masked_set_def map_tensor_def max_def fun_eq_iff)



text \<open>
  Claim C5. Take any lidar grid that the downsampler accepts and any cell \<open>(c, i, j)\<close>
  of its result; the pooling window of that cell is the window of pooled row \<open>i\<close>, or
  of the last pooled row for the replicated bottom row. When every cell of that window
  holds the sentinel \<open>-1\<close> on entry, each of them is re-encoded to \<open>-2\<close>, the maximum
  over the window is \<open>-2\<close>, and the final clamp of negative values leaves exactly 0 in
  the result.
\<close>

theorem all_sentinel_window_gives_zero:
  assumes "0 < chans t" and "20 \<le> rows t" and "10 \<le> cols t"
    and "c < chans t" and "i \<le> pool_out (rows t) 20 10" and "j < pool_out (cols t) 10 10"
    and "i' = min i (pool_out (rows t) 20 10 - 1)"
    and "\<forall>r\<in>set (window i' 20 10). \<forall>k\<in>set (window j 10 10). cell t c r k = - 1"
  shows "(\<forall>r\<in>set (window i' 20 10). \<forall>k\<in>set (window j 10 10). cell (reencode t) c r k = - 2)
    \<and> lookup (MaxPool2d (20, 10) (10, 10) (reencode t)) c i' j = Inr (- 2)
    \<and> lookup (pool_lidar_tensor t) c i j = Inr 0"
proof -
  have re: "\<forall>r\<in>set (window i' 20 10). \<forall>k\<in>set (window j 10 10). cell (reencode t) c r k = - 2"
    using assms(8) by (simp add: cell_reencode)
  have m: "maximum (window_cells (reencode t) c (window i' 20 10) (window j 10 10)) = - 2"
    using re by (intro maximum_const window_nonempty) simp_all
  have i': "i' < pool_out (rows t) 20 10"
    using assms(7) by (simp add: pool_out_def)
  have "lookup (MaxPool2d (20, 10) (10, 10) (reencode t)) c i' j = Inr (- 2)"
    using assms(1-6) i' m by (simp add: MaxPool2d_def pool2d_ok lookup_def)
  moreover have "lookup (pool_lidar_tensor t) c i j = Inr 0"
    using assms(1-6) m [unfolded assms(7)] by (simp add: pool_lidar_ok lookup_def)
  ultimately show ?thesis using re by simp
qed

theorem all_sentinel_window_gives_zero_witness:
  "lookup (MaxPool2d (20, 10) (10, 10) (reencode (full 1 1280 1920 (- 1)))) 0 126 5 = Inr (- 2)
   \<and> lookup (pool_lidar_tensor (full 1 1280 1920 (- 1))) 0 127 5 = Inr 0
   \<and> lookup (pool_lidar_tensor (full 1 1280 1920 (- 1))) 0 3 5 = Inr 0"
proof -
  let ?t = "full 1 1280 1920 (- 1) :: real tensor"
  have po: "pool_out (rows ?t) 20 10 = 127" "pool_out (cols ?t) 10 10 = 192"
    by (simp_all add: pool_out_def)
  have a: "lookup (MaxPool2d (20, 10) (10, 10) (reencode ?t)) 0 126 5 = Inr (- 2)
      \<and> lookup (pool_lidar_tensor ?t) 0 127 5 = Inr 0"
    using all_sentinel_window_gives_zero [of ?t 0 127 5 126] unfolding po by simp
  have b: "lookup (pool_lidar_tensor ?t) 0 3 5 = Inr 0"
    using all_sentinel_window_gives_zero [of ?t 0 3 5 3] unfolding po by simp
  show ?thesis using a b by simp
qed


text \<open>
  Claim C6. For a grid of shape \<open>(1, 1280, 1920)\<close>, max pooling with kernel \<open>(20, 10)\<close>
  and stride \<open>(10, 10)\<close> gives \<open>(1280 - 20) div 10 + 1 = 127\<close> rows and
  \<open>(1920 - 10) div 10 + 1 = 192\<close> columns; the padding adds one row, a copy of pooled
  row 126, below the 127 unchanged rows; and the returned tensor, the clamped padded
  one, has shape \<open>(1, 128, 192)\<close>.
\<close>

theorem lidar_downsampler_shape:
  assumes "shape t = (1, 1280, 1920)"
  shows "pool_out 1280 20 10 = 127 \<and> pool_out 1920 10 10 = 192
    \<and> (\<exists>pooled padded out.
          MaxPool2d (20, 10) (10, 10) (reencode t) = Inr pooled
          \<and> shape pooled = (1, 127, 192)
          \<and> pad_replicate_bottom pooled = Inr padded
          \<and> shape padded = (1, 128, 192)
          \<and> (\<forall>c i j. i < 127 \<longrightarrow> cell padded c i j = cell pooled c i j)
          \<and> (\<forall>c j. cell padded c 127 j = cell pooled c 126 j)
          \<and> pool_lidar_tensor t = Inr out
          \<and> out = masked_set (\<lambda>v. v < 0) 0 padded
          \<and> shape out = (1, 128, 192))"
proof -
  have sh: "chans t = 1" "rows t = 1280" "cols t = 1920"
    using assms by (simp_all add: shape_def)
  have po: "pool_out 1280 20 10 = 127" "pool_out 1920 10 10 = 192"
    by (simp_all add: pool_out_def)
  show ?thesis
    by (simp add: po MaxPool2d_def pool2d_ok sh pool_lidar_tensor_def pad_replicate_bottom_def
        shape_def)
qed

theorem lidar_downsampler_shape_witness:
  "\<exists>out. pool_lidar_tensor (full 1 1280 1920 (- 1)) = Inr out \<and> shape out = (1, 128, 192)"
proof -
  have "shape (full 1 1280 1920 (- 1) :: real tensor) = (1, 1280, 1920)"
    by (simp add: shape_def)
  from lidar_downsampler_shape [OF this] show ?thesis by blast
qed


lemma set_window: "set (window i k s) = {i * s ..< i * s + k}"
  by (simp add: window_def)

lemma maximum_window:
  assumes "rs \<noteq> []" and "ks \<noteq> []"
  shows "maximum (window_cells t c rs ks) = Max ((\<lambda>(r, k). cell t c r k) ` (set rs \<times> set ks))"
  using assms by (simp add: maximum_Max window_cells_empty set_window_cells)

lemma length_window_cells: "length (window_cells t c rs ks) = length rs * length ks"
  by (induction rs) (simp_all add: window_cells_def)

lemma sum_window_cells:
  "sum_list (window_cells t c [a..<a + m] [b..<b + n])
     = (\<Sum>r = a..<a + m. \<Sum>k = b..<b + n. cell t c r k)"
proof -
  have "sum_list (window_cells t c rs ks)
      = sum_list (map (\<lambda>r. sum_list (map (\<lambda>k. cell t c r k) ks)) rs)" for rs ks
    by (induction rs) (simp_all add: window_cells_def)
  then show ?thesis
    by (simp add: interv_sum_list_conv_sum_set_nat)
qed

lemma mean_window:
  "mean (window_cells t c (window i 10 10) (window j 10 10))
     = (\<Sum>r = 10 * i..<10 * i + 10. \<Sum>k = 10 * j..<10 * j + 10. cell t c r k) / 100"
  unfolding mean_def window_def sum_window_cells length_window_cells
  by (simp add: mult.commute)

lemma maximum_eqI:
  assumes "r \<in> set rs" and "k \<in> set ks" and "cell t c r k = v"
    and "\<forall>r\<in>set rs. \<forall>k\<in>set ks. cell t c r k \<le> v"
  shows "maximum (window_cells t c rs ks) = v"
proof -
  have ne: "rs \<noteq> []" "ks \<noteq> []" using assms(1,2) by auto
  have "Max ((\<lambda>(r, k). cell t c r k) ` (set rs \<times> set ks)) = v"
  proof (rule Max_eqI)
    show "finite ((\<lambda>(r, k). cell t c r k) ` (set rs \<times> set ks))" by simp
    show "y \<le> v" if "y \<in> (\<lambda>(r, k). cell t c r k) ` (set rs \<times> set ks)" for y
      using that assms(4) by auto
    show "v \<in> (\<lambda>(r, k). cell t c r k) ` (set rs \<times> set ks)"
      using assms(1-3) by force
  qed
  then show ?thesis by (simp add: maximum_window [OF ne])
qed


text \<open>
  Claim C9, as amended. For a frame of size 1280 by 1920, the lidar tensor, the pooled
  heat map and the pooled image all have 128 rows and 192 columns, and all three pool
  with stride 10. Cell \<open>(i, j)\<close> of the image is the mean, and cell \<open>(i, j)\<close> of the
  heat map the maximum, over exactly the pixel block of rows \<open>10 i, ..., 10 i + 9\<close> and
  columns \<open>10 j, ..., 10 j + 9\<close>. Cell \<open>(i, j)\<close> of the lidar tensor is the clamped
  maximum of the re-encoded grid over the same columns but over the 20 rows
  \<open>10 i', ..., 10 i' + 19\<close> with \<open>i' = min i 126\<close>: the lidar kernel is twice as
  tall as its stride, and row 127 is a copy of row 126, so a lidar cell also reads
  pixel rows outside the block of the image and heat-map cell at the same position.
  Every pixel index read lies inside the image.
\<close>

theorem downsampled_tensors_grid:
  assumes "shape lidar = (1, 1280, 1920)"
    and "shape heat = (3, 1280, 1920)"
    and "shape img = (3, 1280, 1920)"
  shows "\<exists>L M A.
      pool_lidar_tensor lidar = Inr L \<and> maxpool_tensor heat = Inr M \<and> avgpool_tensor img = Inr A
    \<and> shape L = (1, 128, 192) \<and> shape M = (3, 128, 192) \<and> shape A = (3, 128, 192)
    \<and> (\<forall>c i j. cell A c i j =
          (\<Sum>r = 10 * i..<10 * i + 10. \<Sum>k = 10 * j..<10 * j + 10. cell img c r k) / 100)
    \<and> (\<forall>c i j. cell M c i j =
          Max ((\<lambda>(r, k). cell heat c r k) ` ({10 * i..<10 * i + 10} \<times> {10 * j..<10 * j + 10})))
    \<and> (\<forall>c i j. cell L c i j =
          max 0 (Max ((\<lambda>(r, k). cell (reencode lidar) c r k)
                   ` ({10 * min i 126..<10 * min i 126 + 20} \<times> {10 * j..<10 * j + 10}))))
    \<and> (\<forall>i<128. 10 * i + 10 \<le> (1280::nat) \<and> 10 * min i 126 + 20 \<le> (1280::nat))
    \<and> (\<forall>j<192. 10 * j + 10 \<le> (1920::nat))"
proof -
  have l: "chans lidar = 1" "rows lidar = 1280" "cols lidar = 1920"
    and h: "chans heat = 3" "rows heat = 1280" "cols heat = 1920"
    and i: "chans img = 3" "rows img = 1280" "cols img = 1920"
    using assms by (simp_all add: shape_def)
  have po: "pool_out 1280 20 10 = 127" "pool_out 1920 10 10 = 192" "pool_out 1280 10 10 = 128"
    by (simp_all add: pool_out_def)
  have mx: "maximum (window_cells t c (window a m 10) (window b 10 10))
      = Max ((\<lambda>(r, k). cell t c r k) ` ({10 * a..<10 * a + m} \<times> {10 * b..<10 * b + 10}))"
    if "0 < m" for t :: "real tensor" and c a b m
    using that maximum_window [of "window a m 10" "window b 10 10" t c]
    by (simp add: window_nonempty set_window mult.commute)
  have L: "pool_lidar_tensor lidar =
     Inr \<lparr>chans = 1, rows = 128, cols = 192,
          cell = (\<lambda>c i j. max 0 (Max ((\<lambda>(r, k). cell (reencode lidar) c r k)
                   ` ({10 * min i 126..<10 * min i 126 + 20} \<times> {10 * j..<10 * j + 10}))))\<rparr>"
    using pool_lidar_ok [of lidar] unfolding l po by (simp add: mx)
  have M: "maxpool_tensor heat =
     Inr \<lparr>chans = 3, rows = 128, cols = 192,
          cell = (\<lambda>c i j. Max ((\<lambda>(r, k). cell heat c r k)
                   ` ({10 * i..<10 * i + 10} \<times> {10 * j..<10 * j + 10})))\<rparr>"
    using pool2d_ok [of heat 10 10 10 10 maximum] unfolding h po
    by (simp add: maxpool_tensor_def MaxPool2d_def mx)
  have A: "avgpool_tensor img =
     Inr \<lparr>chans = 3, rows = 128, cols = 192,
          cell = (\<lambda>c i j. (\<Sum>r = 10 * i..<10 * i + 10. \<Sum>k = 10 * j..<10 * j + 10.
                              cell img c r k) / 100)\<rparr>"
    using pool2d_ok [of img 10 10 10 10 mean] unfolding i po
    by (simp add: avgpool_tensor_def AvgPool2d_def mean_window)
  have w: "\<forall>i<128. 10 * i + 10 \<le> (1280::nat) \<and> 10 * min i 126 + 20 \<le> (1280::nat)"
    and w': "\<forall>j<192. 10 * j + 10 \<le> (1920::nat)"
    by simp_all
  show ?thesis
    unfolding L M A using w w' by (simp add: shape_def)
qed

theorem downsampled_tensors_grid_witness:
  "\<exists>L M A. pool_lidar_tensor (full 1 1280 1920 (- 1)) = Inr L
     \<and> maxpool_tensor (zeros 3 1280 1920) = Inr M
     \<and> avgpool_tensor (full 3 1280 1920 255) = Inr A
     \<and> shape L = (1, 128, 192) \<and> shape M = (3, 128, 192) \<and> shape A = (3, 128, 192)"
proof -
  have a: "shape (full 1 1280 1920 (- 1) :: real tensor) = (1, 1280, 1920)"
    and b: "shape (zeros 3 1280 1920) = (3, 1280, 1920)"
    and c: "shape (full 3 1280 1920 255 :: real tensor) = (3, 1280, 1920)"
    by (simp_all add: shape_def zeros_def)
  from downsampled_tensors_grid [OF a b c] show ?thesis by blast
qed


text \<open>
  The claim as the specification states it fails: the three tensors are not drawn from
  one pixel-to-cell mapping. A lidar sample at pixel \<open>(x, y) = (5, 1265)\<close> with range 0
  is splatted over rows 1263 to 1267 and columns 3 to 7, and a vehicle box covers
  exactly these pixels. In the heat map they reach cell \<open>(126, 0)\<close> only; in the lidar
  tensor they also reach cells \<open>(125, 0)\<close> and \<open>(127, 0)\<close>, whose blocks of rows 1250
  to 1259 and 1270 to 1279 hold no return at all.
\<close>

theorem lidar_cell_not_from_its_block:
  "lookup (downsized_range_tensor [(5, 1265, 0)]) 0 127 0 = Inr 255
   \<and> lookup (downsized_range_tensor [(5, 1265, 0)]) 0 125 0 = Inr 255
   \<and> lookup (downsized_heat_map [\<lparr>ltype = 1, lx = 3, ly = 1263, lwidth = 5, lheight = 5\<rparr>])
        0 126 0 = Inr 1
   \<and> lookup (downsized_heat_map [\<lparr>ltype = 1, lx = 3, ly = 1263, lwidth = 5, lheight = 5\<rparr>])
        0 127 0 = Inr 0
   \<and> lookup (downsized_heat_map [\<lparr>ltype = 1, lx = 3, ly = 1263, lwidth = 5, lheight = 5\<rparr>])
        0 125 0 = Inr 0"
proof -
  define T :: "real tensor" where
    "T = \<lparr>chans = 1, rows = 1280, cols = 1920,
          cell = (\<lambda>c r k. if c = 0 \<and> 1263 \<le> r \<and> r < 1268 \<and> 3 \<le> k \<and> k < 8 then 0 else - 1)\<rparr>"
  define H :: "real tensor" where
    "H = \<lparr>chans = 3, rows = 1280, cols = 1920,
          cell = (\<lambda>c r k. if c = 0 \<and> 1263 \<le> r \<and> r < 1268 \<and> 3 \<le> k \<and> k < 8 then 1 else 0)\<rparr>"
  have t: "lidar_array_to_image_like_tensor [(5, 1265, 0)] (1, 1280, 1920) 5 = Inr T"
    by (auto simp add: lidar_array_to_image_like_tensor_def splat_step_def Let_def py_int_def
        fill3_def full_def in_slice_def slice_bound_def T_def fun_eq_iff)
  have h: "create_ground_truth_maps [\<lparr>ltype = 1, lx = 3, ly = 1263, lwidth = 5, lheight = 5\<rparr>]
             1920 1280 = Inr H"
    by (simp add: create_ground_truth_maps_def ground_truth_step_def create_ground_truth_bb_def
        create_ground_truth_bb_vehicle_def assign_box_def obj_idx_of_def zeros_def full_def
        slice_len_def slice_bound_def in_slice_def Let_def H_def fun_eq_iff)
  have shT: "chans T = 1" "rows T = 1280" "cols T = 1920"
    and shH: "chans H = 3" "rows H = 1280" "cols H = 1920"
    by (simp_all add: T_def H_def)
  have po: "pool_out 1280 20 10 = 127" "pool_out 1920 10 10 = 192" "pool_out 1280 10 10 = 128"
    by (simp_all add: pool_out_def)
  have cT: "cell (reencode T) 0 r k
      = (if 1263 \<le> r \<and> r < 1268 \<and> 3 \<le> k \<and> k < 8 then 255 else - 2)" for r k
    by (simp add: cell_reencode T_def)
  have cH: "cell H 0 r k = (if 1263 \<le> r \<and> r < 1268 \<and> 3 \<le> k \<and> k < 8 then 1 else 0)" for r k
    by (simp add: H_def)
  have m126: "maximum (window_cells (reencode T) 0 (window 126 20 10) (window 0 10 10)) = 255"
    by (rule maximum_eqI [where r = 1265 and k = 5]) (simp_all add: cT set_window)
  have m125: "maximum (window_cells (reencode T) 0 (window 125 20 10) (window 0 10 10)) = 255"
    by (rule maximum_eqI [where r = 1265 and k = 5]) (simp_all add: cT set_window)
  have h126: "maximum (window_cells H 0 (window 126 10 10) (window 0 10 10)) = 1"
    by (rule maximum_eqI [where r = 1265 and k = 5]) (simp_all add: cH set_window)
  have h127: "maximum (window_cells H 0 (window 127 10 10) (window 0 10 10)) = 0"
    by (rule maximum_const) (simp_all add: cH set_window window_nonempty)
  have h125: "maximum (window_cells H 0 (window 125 10 10) (window 0 10 10)) = 0"
    by (rule maximum_const) (simp_all add: cH set_window window_nonempty)
  have L: "downsized_range_tensor [(5, 1265, 0)] =
     Inr \<lparr>chans = 1, rows = 128, cols = 192,
          cell = (\<lambda>c i j. max 0 (maximum (window_cells (reencode T) c
                     (window (min i 126) 20 10) (window j 10 10))))\<rparr>"
  proof -
    have "pool_lidar_tensor T =
       Inr \<lparr>chans = 1, rows = 128, cols = 192,
            cell = (\<lambda>c i j. max 0 (maximum (window_cells (reencode T) c
                       (window (min i 126) 20 10) (window j 10 10))))\<rparr>"
      using pool_lidar_ok [of T] unfolding shT po by simp
    then show ?thesis unfolding downsized_range_tensor_def t by simp
  qed
  have M: "downsized_heat_map [\<lparr>ltype = 1, lx = 3, ly = 1263, lwidth = 5, lheight = 5\<rparr>] =
     Inr \<lparr>chans = 3, rows = 128, cols = 192,
          cell = (\<lambda>c i j. maximum (window_cells H c (window i 10 10) (window j 10 10)))\<rparr>"
  proof -
    have "maxpool_tensor H =
       Inr \<lparr>chans = 3, rows = 128, cols = 192,
            cell = (\<lambda>c i j. maximum (window_cells H c (window i 10 10) (window j 10 10)))\<rparr>"
      using pool2d_ok [of H 10 10 10 10 maximum] unfolding shH po
      by (simp add: maxpool_tensor_def MaxPool2d_def)
    then show ?thesis unfolding downsized_heat_map_def h by simp
  qed
  have "lookup (downsized_range_tensor [(5, 1265, 0)]) 0 127 0 = Inr 255"
    unfolding L by (simp add: lookup_def m126)
  moreover have "lookup (downsized_range_tensor [(5, 1265, 0)]) 0 125 0 = Inr 255"
    unfolding L by (simp add: lookup_def m125)
  moreover have "lookup (downsized_heat_map
        [\<lparr>ltype = 1, lx = 3, ly = 1263, lwidth = 5, lheight = 5\<rparr>]) 0 126 0 = Inr 1"
    unfolding M by (simp add: lookup_def h126)
  moreover have "lookup (downsized_heat_map
        [\<lparr>ltype = 1, lx = 3, ly = 1263, lwidth = 5, lheight = 5\<rparr>]) 0 127 0 = Inr 0"
    unfolding M by (simp add: lookup_def h127)
  moreover have "lookup (downsized_heat_map
        [\<lparr>ltype = 1, lx = 3, ly = 1263, lwidth = 5, lheight = 5\<rparr>]) 0 125 0 = Inr 0"
    unfolding M by (simp add: lookup_def h125)
  ultimately show ?thesis by simp
qed

section \<open>The overlap metric\<close>

lemma inner_count:
  "sum_list (map (\<lambda>k. if P k then 1 else 0) [0..<w]) = card {k. k < w \<and> P k}"
proof -
  have "sum_list (map (\<lambda>k. if P k then 1 else 0) [0..<w]) = (\<Sum>k\<in>{0..<w}. if P k then 1 else (0::nat))"
    by (simp add: interv_sum_list_conv_sum_set_nat)
  also have "\<dots> = card ({0..<w} \<inter> {k. P k})"
    by (simp add: sum.If_cases)
  also have "{0..<w} \<inter> {k. P k} = {k. k < w \<and> P k}"
    by auto
  finally show ?thesis .
qed

lemma count_true_card:
  "count_true m c = card {(r, k). r < rows m \<and> k < cols m \<and> cell m c r k}"
proof -
  have "count_true m c = (\<Sum>r\<in>{0..<rows m}. card {k. k < cols m \<and> cell m c r k})"
    unfolding count_true_def inner_count by (simp add: interv_sum_list_conv_sum_set_nat)
  also have "\<dots> = card (SIGMA r:{0..<rows m}. {k. k < cols m \<and> cell m c r k})"
    by (simp add: card_SigmaI)
  also have "(SIGMA r:{0..<rows m}. {k. k < cols m \<and> cell m c r k})
      = {(r, k). r < rows m \<and> k < cols m \<and> cell m c r k}"
    by auto
  finally show ?thesis .
qed

lemma finite_cells: "finite {(r, k). r < (h::nat) \<and> k < (w::nat) \<and> P r k}"
proof -
  have "{(r, k). r < h \<and> k < w \<and> P r k} \<subseteq> {0..<h} \<times> {0..<w}" by auto
  then show ?thesis by (rule finite_subset) simp
qed

lemma card_all_cells: "card {(r, k). r < (h::nat) \<and> k < (w::nat)} = h * w"
proof -
  have "{(r, k). r < h \<and> k < w} = {0..<h} \<times> {0..<w}" by auto
  then show ?thesis by simp
qed

lemma zip_same_shape:
  assumes "shape a = shape b"
  shows "\<exists>z. zip_tensor f a b = Inr z \<and> shape z = shape a
     \<and> (\<forall>c r k. c < chans a \<longrightarrow> r < rows a \<longrightarrow> k < cols a \<longrightarrow>
            cell z c r k = f (cell a c r k) (cell b c r k))"
  using assms
  by (auto simp add: zip_tensor_def shape_def broadcastable_def broadcast_dim_def bidx_def)


lemma iou_value:
  "nan_to_zero (true_divide i u) = (if u = 0 then (if i = 0 then Num 0 else PosInf) else Num (real i / real u))"
  by (simp add: nan_to_zero_def true_divide_def)

lemma iou_unfold:
  fixes gt est :: "real tensor" and thr :: real
  assumes "shape gt = shape est"
  shows "\<exists>both either.
      compute_IoU_whole_img_per_class gt est thr =
        Inr (map (\<lambda>c. nan_to_zero (true_divide (count_true both c) (count_true either c)))
               [0..<chans gt])
    \<and> rows both = rows gt \<and> cols both = cols gt
    \<and> rows either = rows gt \<and> cols either = cols gt
    \<and> (\<forall>c r k. c < chans gt \<longrightarrow> r < rows gt \<longrightarrow> k < cols gt \<longrightarrow>
          cell both c r k = (thr \<le> cell est c r k \<and> thr \<le> cell gt c r k))
    \<and> (\<forall>c r k. c < chans gt \<longrightarrow> r < rows gt \<longrightarrow> k < cols gt \<longrightarrow>
          cell either c r k = (thr \<le> cell est c r k \<or> thr \<le> cell gt c r k))"
proof -
  let ?e = "map_tensor (\<lambda>v. v \<ge> thr) est" and ?g = "map_tensor (\<lambda>v. v \<ge> thr) gt"
  have sh: "chans est = chans gt" "rows est = rows gt" "cols est = cols gt"
    using assms by (simp_all add: shape_def)
  have sh': "shape ?e = shape ?g"
    by (simp add: shape_def map_tensor_def sh)
  obtain both where both: "zip_tensor (\<and>) ?e ?g = Inr both" "shape both = shape ?e"
    "\<forall>c r k. c < chans ?e \<longrightarrow> r < rows ?e \<longrightarrow> k < cols ?e \<longrightarrow>
        cell both c r k = (cell ?e c r k \<and> cell ?g c r k)"
    using zip_same_shape [OF sh', of "(\<and>)"] by blast
  obtain either where either: "zip_tensor (\<or>) ?e ?g = Inr either" "shape either = shape ?e"
    "\<forall>c r k. c < chans ?e \<longrightarrow> r < rows ?e \<longrightarrow> k < cols ?e \<longrightarrow>
        cell either c r k = (cell ?e c r k \<or> cell ?g c r k)"
    using zip_same_shape [OF sh', of "(\<or>)"] by blast
  have shb: "chans both = chans gt" "rows both = rows gt" "cols both = cols gt"
    using both(2) by (simp_all add: shape_def map_tensor_def sh)
  have she: "chans either = chans gt" "rows either = rows gt" "cols either = cols gt"
    using either(2) by (simp_all add: shape_def map_tensor_def sh)
  have zz: "zip (map f [0..<n]) (map g [0..<n]) = map (\<lambda>c. (f c, g c)) [0..<n]"
    for f g :: "nat \<Rightarrow> nat" and n
    by (simp add: zip_map_map zip_same_conv_map)
  have res: "compute_IoU_whole_img_per_class gt est thr =
        Inr (map (\<lambda>c. nan_to_zero (true_divide (count_true both c) (count_true either c)))
               [0..<chans gt])"
    by (simp add: compute_IoU_whole_img_per_class_def Let_def both(1) either(1) sum_axes12_def
        shb she zz comp_def)
  have cb: "\<forall>c r k. c < chans gt \<longrightarrow> r < rows gt \<longrightarrow> k < cols gt \<longrightarrow>
          cell both c r k = (thr \<le> cell est c r k \<and> thr \<le> cell gt c r k)"
    using both(3) by (simp add: map_tensor_def sh)
  have ce: "\<forall>c r k. c < chans gt \<longrightarrow> r < rows gt \<longrightarrow> k < cols gt \<longrightarrow>
          cell either c r k = (thr \<le> cell est c r k \<or> thr \<le> cell gt c r k)"
    using either(3) by (simp add: map_tensor_def sh)
  show ?thesis
    using res shb(2,3) she(2,3) cb ce by blast
qed


text \<open>
  Claim C4. For a ground-truth map and an estimated map of the same shape, the metric
  returns without error one score per class. With \<open>i\<close> the number of cells of the class
  where both maps reach the threshold and \<open>u\<close> the number where at least one does, the
  score is \<open>i / u\<close>, a number in \<open>[0, 1]\<close>, and exactly 0 when \<open>u = 0\<close>: never NaN.
  When, on a non-empty grid, the ground truth reaches the threshold everywhere and the
  estimate nowhere, \<open>i = 0\<close> and \<open>u\<close> is the positive number of cells of the grid, so
  the score 0 is the quotient \<open>0 / u\<close> and not the degenerate case.
\<close>

theorem overlap_score:
  fixes gt est :: "real tensor" and thr :: real
  assumes "shape gt = shape est"
  shows "\<exists>v. compute_IoU_whole_img_per_class gt est thr = Inr v \<and> length v = chans gt
     \<and> (\<forall>c<chans gt.
          (let i = card {(r, k). r < rows gt \<and> k < cols gt
                        \<and> thr \<le> cell est c r k \<and> thr \<le> cell gt c r k};
               u = card {(r, k). r < rows gt \<and> k < cols gt
                        \<and> (thr \<le> cell est c r k \<or> thr \<le> cell gt c r k)}
           in i \<le> u
              \<and> v ! c = (if u = 0 then Num 0 else Num (real i / real u))
              \<and> (\<exists>s. v ! c = Num s \<and> 0 \<le> s \<and> s \<le> 1)
              \<and> (0 < rows gt \<and> 0 < cols gt
                   \<and> (\<forall>r<rows gt. \<forall>k<cols gt. thr \<le> cell gt c r k \<and> cell est c r k < thr)
                  \<longrightarrow> i = 0 \<and> u = rows gt * cols gt \<and> 0 < u \<and> v ! c = Num 0)))"
proof -
  obtain both either where
    res: "compute_IoU_whole_img_per_class gt est thr =
        Inr (map (\<lambda>c. nan_to_zero (true_divide (count_true both c) (count_true either c)))
               [0..<chans gt])"
    and shb: "rows both = rows gt" "cols both = cols gt"
    and she: "rows either = rows gt" "cols either = cols gt"
    and cb: "\<forall>c r k. c < chans gt \<longrightarrow> r < rows gt \<longrightarrow> k < cols gt \<longrightarrow>
          cell both c r k = (thr \<le> cell est c r k \<and> thr \<le> cell gt c r k)"
    and ce: "\<forall>c r k. c < chans gt \<longrightarrow> r < rows gt \<longrightarrow> k < cols gt \<longrightarrow>
          cell either c r k = (thr \<le> cell est c r k \<or> thr \<le> cell gt c r k)"
    using iou_unfold [OF assms, of thr] by blast
  define v0 where "v0 = map (\<lambda>c. nan_to_zero (true_divide (count_true both c) (count_true either c)))
               [0..<chans gt]"
  have len: "length v0 = chans gt" by (simp add: v0_def)
  have main: "(let i = card {(r, k). r < rows gt \<and> k < cols gt
                        \<and> thr \<le> cell est c r k \<and> thr \<le> cell gt c r k};
               u = card {(r, k). r < rows gt \<and> k < cols gt
                        \<and> (thr \<le> cell est c r k \<or> thr \<le> cell gt c r k)}
           in i \<le> u
              \<and> v0 ! c = (if u = 0 then Num 0 else Num (real i / real u))
              \<and> (\<exists>s. v0 ! c = Num s \<and> 0 \<le> s \<and> s \<le> 1)
              \<and> (0 < rows gt \<and> 0 < cols gt
                   \<and> (\<forall>r<rows gt. \<forall>k<cols gt. thr \<le> cell gt c r k \<and> cell est c r k < thr)
                  \<longrightarrow> i = 0 \<and> u = rows gt * cols gt \<and> 0 < u \<and> v0 ! c = Num 0))"
    if c: "c < chans gt" for c
  proof -
    define I where "I = {(r, k). r < rows gt \<and> k < cols gt
                        \<and> thr \<le> cell est c r k \<and> thr \<le> cell gt c r k}"
    define U where "U = {(r, k). r < rows gt \<and> k < cols gt
                        \<and> (thr \<le> cell est c r k \<or> thr \<le> cell gt c r k)}"
    have "{(r, k). r < rows gt \<and> k < cols gt \<and> cell both c r k} = I"
      unfolding I_def using cb c by auto
    then have ci: "count_true both c = card I"
      by (simp add: count_true_card shb)
    have "{(r, k). r < rows gt \<and> k < cols gt \<and> cell either c r k} = U"
      unfolding U_def using ce c by auto
    then have cu: "count_true either c = card U"
      by (simp add: count_true_card she)
    have fin: "finite U" unfolding U_def by (rule finite_cells)
    have sub: "I \<subseteq> U" unfolding I_def U_def by auto
    have le: "card I \<le> card U" using fin sub by (rule card_mono)
    have val: "v0 ! c = nan_to_zero (true_divide (card I) (card U))"
      using c by (simp add: v0_def ci cu)
    have v: "v0 ! c = (if card U = 0 then Num 0 else Num (real (card I) / real (card U)))"
      using le by (simp add: val iou_value)
    have rng: "\<exists>s. v0 ! c = Num s \<and> 0 \<le> s \<and> s \<le> 1"
      using le by (simp add: v)
    have deg: "card I = 0 \<and> card U = rows gt * cols gt \<and> 0 < card U \<and> v0 ! c = Num 0"
      if h: "0 < rows gt \<and> 0 < cols gt
           \<and> (\<forall>r<rows gt. \<forall>k<cols gt. thr \<le> cell gt c r k \<and> cell est c r k < thr)"
    proof -
      have h': "\<not> thr \<le> cell est c r k" "thr \<le> cell gt c r k"
        if "r < rows gt" "k < cols gt" for r k
        using h that by (simp_all add: not_le)
      have "I = {}" unfolding I_def using h' by blast
      moreover have "U = {(r, k). r < rows gt \<and> k < cols gt}" unfolding U_def using h' by blast
      ultimately have "card I = 0" "card U = rows gt * cols gt"
        by (simp_all add: card_all_cells)
      then show ?thesis using h by (simp add: v)
    qed
    show ?thesis
      unfolding Let_def I_def [symmetric] U_def [symmetric]
      using le v rng deg by blast
  qed
  show ?thesis
    using res len main unfolding v0_def [symmetric] by blast
qed

theorem overlap_score_witness:
  "compute_IoU_whole_img_per_class (full 1 4 4 1) (full 1 4 4 0) 0.5 = Inr [Num 0]
   \<and> compute_IoU_whole_img_per_class (full 1 4 4 0) (full 1 4 4 0) 0.5 = Inr [Num 0]
   \<and> compute_IoU_whole_img_per_class (full 1 4 4 1) (full 1 4 4 1) 0.5 = Inr [Num 1]"
proof -
  have one: "v = [v ! 0]" if "length v = 1" for v :: "tfloat list"
    using that by (cases v) simp_all
  have sh: "shape (full 1 4 4 a :: real tensor) = shape (full 1 4 4 b :: real tensor)" for a b
    by (simp add: shape_def full_def)
  have all: "{(r, k). r < (4::nat) \<and> k < (4::nat)} = {0..<4} \<times> {0..<4}"
    by auto
  obtain v1 where v1: "compute_IoU_whole_img_per_class (full 1 4 4 1) (full 1 4 4 0) 0.5 = Inr v1"
      "length v1 = 1" "v1 ! 0 = Num 0"
    using overlap_score [OF sh [of 1 0], of "0.5"]
    by (auto simp add: full_def Let_def all)
  obtain v2 where v2: "compute_IoU_whole_img_per_class (full 1 4 4 0) (full 1 4 4 0) 0.5 = Inr v2"
      "length v2 = 1" "v2 ! 0 = Num 0"
    using overlap_score [OF sh [of 0 0], of "0.5"]
    by (auto simp add: full_def Let_def)
  obtain v3 where v3: "compute_IoU_whole_img_per_class (full 1 4 4 1) (full 1 4 4 1) 0.5 = Inr v3"
      "length v3 = 1" "v3 ! 0 = Num 1"
    using overlap_score [OF sh [of 1 1], of "0.5"]
    by (auto simp add: full_def Let_def all)
  show ?thesis
    using one [OF v1(2)] one [OF v2(2)] one [OF v3(2)] v1 v2 v3 by simp
qed



section \<open>The point splatter\<close>

lemma py_int_of_int [simp]: "py_int (of_int n) = n"
  by (simp add: py_int_def)

lemma splat_one:
  "lidar_array_to_image_like_tensor [(x, y, d)] (Suc c, h, w) kernel_size =
     fill3 (full (Suc c) h w (- 1)) 0
       (max 0 (py_int (y - of_int ((kernel_size - 1) div 2))))
       (min (int h - 1) (py_int (y + of_int ((kernel_size - 1) div 2) + 1)))
       (max 0 (py_int (x - of_int ((kernel_size - 1) div 2))))
       (min (int w - 1) (py_int (x + of_int ((kernel_size - 1) div 2) + 1)))
       d"
  by (simp add: lidar_array_to_image_like_tensor_def splat_step_def Let_def max_def min_def
      fill3_def)


text \<open>
  What the splatter does with one sample at integer pixel coordinates, when the upper
  bounds \<open>y + shift + 1\<close> and \<open>x + shift + 1\<close> are not negative: the window
  \<open>[y - shift, y + shift] \<times> [x - shift, x + shift]\<close> is written, but only up to the
  last row but one and the last column but one of the grid. The upper bounds are
  clamped to \<open>shape[1] - 1\<close> and \<open>shape[2] - 1\<close> and then used as the exclusive ends
  of the slices.
\<close>

lemma splat_single:
  fixes x y kernel_size :: int and d :: real
  assumes "shift = (kernel_size - 1) div 2" and "0 \<le> y + shift + 1" and "0 \<le> x + shift + 1"
    and "r < h" and "k < w"
  shows "lookup (lidar_array_to_image_like_tensor [(of_int x, of_int y, d)] (Suc c, h, w)
            kernel_size) 0 r k =
     Inr (if y - shift \<le> int r \<and> int r \<le> y + shift \<and> int r < int h - 1
            \<and> x - shift \<le> int k \<and> int k \<le> x + shift \<and> int k < int w - 1
          then d else - 1)"
proof -
  have a: "py_int (of_int y - of_int shift) = y - shift"
    "py_int (of_int y + of_int shift + 1) = y + shift + 1"
    "py_int (of_int x - of_int shift) = x - shift"
    "py_int (of_int x + of_int shift + 1) = x + shift + 1"
    using py_int_of_int [of "y - shift"] py_int_of_int [of "y + shift + 1"]
      py_int_of_int [of "x - shift"] py_int_of_int [of "x + shift + 1"]
    by simp_all
  show ?thesis
    using assms(2-5)
    unfolding splat_one assms(1) [symmetric] a
    by (auto simp add: fill3_def lookup_def in_slice_def slice_bound_def)
qed


text \<open>
  Claim C2, evaluated on the code. On the default grid of 1280 rows and 1920 columns
  with kernel size 5, the window of the sample \<open>(x, y, d) = (1917, 1277, 5)\<close> is rows
  1275 to 1279 and columns 1915 to 1919, all inside the grid. The code writes 5 to
  rows 1275 to 1278 and columns 1915 to 1918 only: the cells of row 1279 and of column
  1919 keep the sentinel \<open>-1\<close>, where the claim has them set to 5.
\<close>

theorem splat_misses_last_row_and_column:
  "lookup (lidar_array_to_image_like_tensor [(1917, 1277, 5)] (1, 1280, 1920) 5) 0 1275 1915 = Inr 5
   \<and> lookup (lidar_array_to_image_like_tensor [(1917, 1277, 5)] (1, 1280, 1920) 5) 0 1277 1917 = Inr 5
   \<and> lookup (lidar_array_to_image_like_tensor [(1917, 1277, 5)] (1, 1280, 1920) 5) 0 1278 1918 = Inr 5
   \<and> lookup (lidar_array_to_image_like_tensor [(1917, 1277, 5)] (1, 1280, 1920) 5) 0 1279 1917 = Inr (- 1)
   \<and> lookup (lidar_array_to_image_like_tensor [(1917, 1277, 5)] (1, 1280, 1920) 5) 0 1277 1919 = Inr (- 1)
   \<and> lookup (lidar_array_to_image_like_tensor [(1917, 1277, 5)] (1, 1280, 1920) 5) 0 1279 1919 = Inr (- 1)"
  by (simp add: lidar_array_to_image_like_tensor_def splat_step_def Let_def py_int_def
      fill3_def full_def lookup_def in_slice_def slice_bound_def)



end
